theory Spec2Isabelle
  imports Complex_Main
begin

section \<open>Values: JSON documents\<close>

text \<open>
  \<^verbatim>\<open>src/package.d.ts\<close> declares the namespace \<open>Package\<close>: a set of TypeScript types for
  the manifest file \<^verbatim>\<open>package.json\<close>. The values these types classify are JSON documents.
  An object is kept as the list of its entries and read with \<^const>\<open>map_of\<close>; the value
  of a number is never inspected by any type of the file.
\<close>

datatype json =
    JNull
  | JBool bool
  | JNumber real
  | JString string
  | JArray "json list"
  | JObject "(string \<times> json) list"

section \<open>The type constructors used by the declaration file\<close>

text \<open>
  A TypeScript type is embedded as the predicate of the JSON values assignable to it, read
  under \<^verbatim>\<open>strictNullChecks\<close> (the file writes \<^verbatim>\<open>| null\<close> where it means null).
  \<^verbatim>\<open>object\<close> is every non-primitive value, so an array is one; \<^verbatim>\<open>undefined\<close> is no JSON
  value at all; \<^verbatim>\<open>any\<close> is every value.
\<close>

fun ts_string :: "json \<Rightarrow> bool" where
  "ts_string (JString s) = True"
| "ts_string v = False"

fun ts_boolean :: "json \<Rightarrow> bool" where
  "ts_boolean (JBool b) = True"
| "ts_boolean v = False"

fun ts_null :: "json \<Rightarrow> bool" where
  "ts_null JNull = True"
| "ts_null v = False"

definition ts_undefined :: "json \<Rightarrow> bool" where
  "ts_undefined v = False"

definition ts_any :: "json \<Rightarrow> bool" where
  "ts_any v = True"

fun ts_object :: "json \<Rightarrow> bool" where
  "ts_object (JObject kvs) = True"
| "ts_object (JArray vs) = True"
| "ts_object v = False"

text \<open>\<^verbatim>\<open>T[]\<close>: an array all of whose elements are of type \<open>T\<close>.\<close>

fun ts_array :: "(json \<Rightarrow> bool) \<Rightarrow> json \<Rightarrow> bool" where
  "ts_array T (JArray vs) = list_all T vs"
| "ts_array T v = False"

text \<open>
  A member of an object type: its key, whether it is written with \<^verbatim>\<open>?\<close>, the text of its
  declared type and the type itself.
\<close>

datatype member = Member (m_key: string) (m_optional: bool) (m_expected: string)
  (m_shape: "json \<Rightarrow> bool")

abbreviation required :: "string \<Rightarrow> string \<Rightarrow> (json \<Rightarrow> bool) \<Rightarrow> member" where
  "required k e T \<equiv> Member k False e T"

abbreviation optional :: "string \<Rightarrow> string \<Rightarrow> (json \<Rightarrow> bool) \<Rightarrow> member" where
  "optional k e T \<equiv> Member k True e T"

text \<open>
  A member holds of an object when its key is absent and the member optional, or its key is
  present with a value of the member's type.
\<close>

definition member_ok :: "(string \<times> json) list \<Rightarrow> member \<Rightarrow> bool" where
  "member_ok kvs m =
     (case map_of kvs (m_key m) of None \<Rightarrow> m_optional m | Some v \<Rightarrow> m_shape m v)"

text \<open>
  An index signature \<^verbatim>\<open>[k: string] : T\<close> constrains the value of every key of the
  object, declared or not.
\<close>

definition index_signature :: "(json \<Rightarrow> bool) \<Rightarrow> (string \<times> json) list \<Rightarrow> bool" where
  "index_signature T kvs =
     list_all (\<lambda>k. case map_of kvs k of None \<Rightarrow> True | Some v \<Rightarrow> T v) (map fst kvs)"

text \<open>
  A weak type is an object type that declares members, all of them optional, and has no
  index signature. The compiler assigns a value to a weak type only if the value has no
  property at all or has at least one of the declared ones (a value that shares no
  property with the type is refused, error TS2559).
\<close>

definition weak_type :: "member list \<Rightarrow> (json \<Rightarrow> bool) option \<Rightarrow> bool" where
  "weak_type ms idx =
     (ms \<noteq> [] \<and> list_all m_optional ms \<and> (case idx of None \<Rightarrow> True | Some T \<Rightarrow> False))"

definition shares_property :: "string list \<Rightarrow> (string \<times> json) list \<Rightarrow> bool" where
  "shares_property ks kvs =
     (case kvs of [] \<Rightarrow> True | e # es \<Rightarrow> list_ex (\<lambda>k. map_of kvs k \<noteq> None) ks)"

text \<open>
  An object type \<^verbatim>\<open>{ members; [k: string] : T }\<close>. Assignability is structural: the value
  is a JSON object (an array or a primitive value is of no object type of the file), each
  declared member holds, the index signature, when there is one, holds, and a weak type
  shares a property with the value. Beyond that a key that is neither declared nor under
  an index signature is not inspected: the compiler's check for excess properties
  concerns object literals in program text only.
\<close>

definition object_type :: "member list \<Rightarrow> (json \<Rightarrow> bool) option \<Rightarrow> json \<Rightarrow> bool" where
  "object_type ms idx v =
     (case v of
        JObject kvs \<Rightarrow>
          list_all (member_ok kvs) ms \<and>
          (case idx of None \<Rightarrow> True | Some T \<Rightarrow> index_signature T kvs) \<and>
          (if weak_type ms idx then shares_property (map m_key ms) kvs else True)
      | _ \<Rightarrow> False)"

section \<open>The types of namespace Package\<close>

text \<open>\<^verbatim>\<open>type Person = string | { name: string, url?: string, email?: string }\<close>\<close>

definition Person :: "json \<Rightarrow> bool" where
  "Person v =
     (ts_string v \<or>
      object_type
        [required ''name'' ''string'' ts_string,
         optional ''url'' ''string'' ts_string,
         optional ''email'' ''string'' ts_string] None v)"

text \<open>\<^verbatim>\<open>interface Dependency { [package: string] : string }\<close>\<close>

definition Dependency :: "json \<Rightarrow> bool" where
  "Dependency v = object_type [] (Some ts_string) v"

text \<open>\<^verbatim>\<open>type PackageExportsEntryPath = string | null\<close>\<close>

definition PackageExportsEntryPath :: "json \<Rightarrow> bool" where
  "PackageExportsEntryPath v = (ts_string v \<or> ts_null v)"

text \<open>The five conditions of \<^verbatim>\<open>interface PackageExportsEntryObject\<close>, in its order.\<close>

definition condition_keys :: "string list" where
  "condition_keys = [''require'', ''import'', ''node'', ''default'', ''types'']"

text \<open>
  \<^verbatim>\<open>interface PackageExportsEntryObject { require?: PackageExportsEntryOrFallback, ... }\<close>
  \<^verbatim>\<open>type PackageExportsEntry = PackageExportsEntryPath | PackageExportsEntryObject\<close>
  \<^verbatim>\<open>type PackageExportsFallback = PackageExportsEntry[]\<close>
  \<^verbatim>\<open>type PackageExportsEntryOrFallback = PackageExportsEntry | PackageExportsEntry[]\<close>
  The four types refer to one another, so they are one recursive definition. Each of the
  five members of the interface is optional and of type PackageExportsEntryOrFallback; the
  interface has no index signature, so it is a weak type: an object that is not empty has
  to hold one of the five conditions.
\<close>

function (sequential) PackageExportsEntryObject :: "json \<Rightarrow> bool"
  and PackageExportsEntry :: "json \<Rightarrow> bool"
  and PackageExportsFallback :: "json \<Rightarrow> bool"
  and PackageExportsEntryOrFallback :: "json \<Rightarrow> bool" where
  "PackageExportsEntryObject (JObject kvs) =
     (list_all
        (\<lambda>k. case map_of kvs k of None \<Rightarrow> True | Some x \<Rightarrow> PackageExportsEntryOrFallback x)
        condition_keys \<and>
      shares_property condition_keys kvs)"
| "PackageExportsEntryObject v = False"
| "PackageExportsEntry v = (PackageExportsEntryPath v \<or> PackageExportsEntryObject v)"
| "PackageExportsFallback (JArray vs) = list_all PackageExportsEntry vs"
| "PackageExportsFallback v = False"
| "PackageExportsEntryOrFallback v = (PackageExportsEntry v \<or> PackageExportsFallback v)"
  by pat_completeness auto

text \<open>
  Termination: a member's value is smaller than the object and an element smaller than the
  array; where a type only names another one the value stays and the rank of the type
  drops.
\<close>

termination
proof (relation "measure (\<lambda>x. case x of
        Inl (Inl v) \<Rightarrow> 4 * size v
      | Inl (Inr v) \<Rightarrow> 4 * size v + 1
      | Inr (Inl v) \<Rightarrow> 4 * size v
      | Inr (Inr v) \<Rightarrow> 4 * size v + 2)", goal_cases)
  case 1
  show ?case by simp
next
  case (2 kvs k x)
  have "map_of es k = Some x \<Longrightarrow> size x < size (JObject es)"
    for es :: "(string \<times> json) list"
    by (induction es) (auto split: if_splits)
  from this [OF 2(2)] show ?case by simp
next
  case 3
  show ?case by simp
next
  case (4 vs x)
  have "x \<in> set xs \<Longrightarrow> size x < size (JArray xs)" for xs
    by (induction xs) auto
  from this [OF 4(1)] show ?case by simp
next
  case 5
  show ?case by simp
next
  case 6
  show ?case by simp
qed

text \<open>
  \<^verbatim>\<open>interface fundingWay { url: string, type?: string }\<close>
\<close>

definition fundingWay :: "json \<Rightarrow> bool" where
  "fundingWay v =
     object_type
       [required ''url'' ''string'' ts_string,
        optional ''type'' ''string'' ts_string] None v"

section \<open>The members of interface Json\<close>

text \<open>The type of each member that is more than a named or primitive type.\<close>

definition Json_bugs :: "json \<Rightarrow> bool" where
  "Json_bugs v =
     (ts_string v \<or>
      object_type
        [required ''url'' ''string'' ts_string,
         required ''email'' ''string'' ts_string] None v)"

definition Json_author :: "json \<Rightarrow> bool" where
  "Json_author v = (ts_string v \<or> Person v)"

definition Json_exports :: "json \<Rightarrow> bool" where
  "Json_exports v =
     (PackageExportsEntryPath v \<or>
      object_type [] (Some PackageExportsEntryOrFallback) v \<or>
      PackageExportsEntryObject v \<or>
      PackageExportsFallback v)"

definition Json_bin :: "json \<Rightarrow> bool" where
  "Json_bin v = (ts_string v \<or> ts_object v)"

definition Json_typesVersions :: "json \<Rightarrow> bool" where
  "Json_typesVersions v = object_type [] (Some (ts_array ts_string)) v"

definition Json_man :: "json \<Rightarrow> bool" where
  "Json_man v = (ts_string v \<or> ts_array ts_string v)"

definition Json_directories :: "json \<Rightarrow> bool" where
  "Json_directories v =
     object_type
       [optional ''bin'' ''string'' ts_string,
        optional ''doc'' ''string'' ts_string,
        optional ''example'' ''string'' ts_string,
        optional ''lib'' ''string'' ts_string,
        optional ''man'' ''string'' ts_string,
        optional ''test'' ''string'' ts_string] None v"

definition Json_repository :: "json \<Rightarrow> bool" where
  "Json_repository v =
     (ts_string v \<or>
      object_type
        [optional ''type'' ''string'' ts_string,
         optional ''url'' ''string'' ts_string,
         optional ''directory'' ''string'' ts_string] None v)"

definition Json_funding :: "json \<Rightarrow> bool" where
  "Json_funding v =
     (ts_string v \<or> ts_array ts_string v \<or> fundingWay v \<or> ts_array fundingWay v)"

text \<open>
  The lifecycle events that \<^verbatim>\<open>scripts\<close> names, in the order of the file. Each is an
  optional string; the index signature is \<^verbatim>\<open>[name: string] : string | undefined\<close>.
\<close>

definition script_names :: "string list" where
  "script_names =
     [''lint'', ''prepublish'', ''prepare'', ''prepublishOnly'', ''prepack'', ''postpack'',
      ''publish'', ''postpublish'', ''preinstall'', ''install'', ''postinstall'',
      ''preuninstall'', ''uninstall'', ''postuninstall'', ''preversion'', ''version'',
      ''postversion'', ''pretest'', ''test'', ''posttest'', ''prestop'', ''stop'',
      ''poststop'', ''prestart'', ''start'', ''poststart'', ''prerestart'', ''restart'',
      ''postrestart'', ''serve'']"

definition Json_scripts :: "json \<Rightarrow> bool" where
  "Json_scripts v =
     object_type (map (\<lambda>k. optional k ''string'' ts_string) script_names)
       (Some (\<lambda>x. ts_string x \<or> ts_undefined x)) v"

definition Json_peerDependenciesMeta :: "json \<Rightarrow> bool" where
  "Json_peerDependenciesMeta v =
     object_type []
       (Some (object_type
          [required ''optional'' ''boolean'' ts_boolean]
          (Some (\<lambda>x. ts_string x \<or> ts_boolean x \<or> ts_undefined x)))) v"

definition Json_bundledDependencies :: "json \<Rightarrow> bool" where
  "Json_bundledDependencies v = (ts_boolean v \<or> ts_array ts_string v)"

definition Json_engines :: "json \<Rightarrow> bool" where
  "Json_engines v =
     object_type [required ''node'' ''string'' ts_string] (Some ts_string) v"

definition Json_private :: "json \<Rightarrow> bool" where
  "Json_private v = (ts_boolean v \<or> ts_string v)"

definition Json_publishConfig :: "json \<Rightarrow> bool" where
  "Json_publishConfig v =
     object_type
       [optional ''access'' ''string'' ts_string,
        optional ''tag'' ''string'' ts_string,
        optional ''registry'' ''string'' ts_string]
       (Some (\<lambda>x. ts_string x \<or> ts_undefined x)) v"

definition Json_dist :: "json \<Rightarrow> bool" where
  "Json_dist v =
     object_type
       [optional ''shasum'' ''string'' ts_string,
        optional ''tarball'' ''string'' ts_string] None v"

definition Json_esnext :: "json \<Rightarrow> bool" where
  "Json_esnext v =
     (ts_string v \<or>
      object_type
        [optional ''main'' ''string'' ts_string,
         optional ''browser'' ''string'' ts_string]
        (Some (\<lambda>x. ts_string x \<or> ts_undefined x)) v)"

definition Json_workspaces :: "json \<Rightarrow> bool" where
  "Json_workspaces v =
     (ts_array ts_string v \<or>
      object_type
        [optional ''packages'' ''string[]'' (ts_array ts_string),
         optional ''nohoist'' ''string[]'' (ts_array ts_string)] None v)"

text \<open>
  \<^verbatim>\<open>interface Json\<close>: its members in the order of the file. Only \<^verbatim>\<open>name\<close> and
  \<^verbatim>\<open>version\<close> are written without \<^verbatim>\<open>?\<close>; the interface has no index signature.
\<close>

definition Json_members :: "member list" where
  "Json_members =
     [required ''name'' ''string'' ts_string,
      required ''version'' ''string'' ts_string,
      optional ''description'' ''string'' ts_string,
      optional ''keywords'' ''string[]'' (ts_array ts_string),
      optional ''homepage'' ''string'' ts_string,
      optional ''bugs'' ''string | { url: string, email: string }'' Json_bugs,
      optional ''license'' ''string'' ts_string,
      optional ''author'' ''string | Person'' Json_author,
      optional ''contributors'' ''Person[]'' (ts_array Person),
      optional ''maintainers'' ''Person[]'' (ts_array Person),
      optional ''files'' ''string[]'' (ts_array ts_string),
      optional ''main'' ''string'' ts_string,
      optional ''exports''
        ''PackageExportsEntryPath | { [module: string] : PackageExportsEntryOrFallback } | PackageExportsEntryObject | PackageExportsFallback''
        Json_exports,
      optional ''bin'' ''string | object'' Json_bin,
      optional ''type'' ''string'' ts_string,
      optional ''types'' ''string'' ts_string,
      optional ''typings'' ''string'' ts_string,
      optional ''typesVersions'' ''{ [type: string] : string[] }'' Json_typesVersions,
      optional ''man'' ''string | string[]'' Json_man,
      optional ''directories''
        ''{ bin?: string, doc?: string, example?: string, lib?: string, man?: string, test?: string }''
        Json_directories,
      optional ''repository'' ''string | { type?: string, url?: string, directory?: string }''
        Json_repository,
      optional ''funding'' ''string | string[] | fundingWay | fundingWay[]'' Json_funding,
      optional ''scripts'' ''{ lint?: string, ..., [name: string] : string | undefined }''
        Json_scripts,
      optional ''config'' ''object'' ts_object,
      optional ''dependencies'' ''Dependency'' Dependency,
      optional ''devDependencies'' ''Dependency'' Dependency,
      optional ''optionalDependencies'' ''Dependency'' Dependency,
      optional ''peerDependencies'' ''Dependency'' Dependency,
      optional ''peerDependenciesMeta''
        ''{ [name: string] : { optional: boolean, [property: string] : string | boolean | undefined } }''
        Json_peerDependenciesMeta,
      optional ''bundledDependencies'' ''boolean | string[]'' Json_bundledDependencies,
      optional ''resolutions'' ''object'' ts_object,
      optional ''overrides'' ''object'' ts_object,
      optional ''packageManager'' ''string'' ts_string,
      optional ''engines'' ''{ node: string, [name: string] : string }'' Json_engines,
      optional ''engineStrict'' ''boolean'' ts_boolean,
      optional ''os'' ''string[]'' (ts_array ts_string),
      optional ''cpu'' ''string[]'' (ts_array ts_string),
      optional ''private'' ''boolean | string'' Json_private,
      optional ''publishConfig''
        ''{ access?: string, tag?: string, registry?: string, [name: string] : string | undefined }''
        Json_publishConfig,
      optional ''dist'' ''{ shasum?: string, tarball?: string }'' Json_dist,
      optional ''readme'' ''string'' ts_string,
      optional ''module'' ''string'' ts_string,
      optional ''esnext''
        ''string | { main?: string, browser?: string, [name: string] : string | undefined }''
        Json_esnext,
      optional ''workspaces'' ''string[] | { packages?: string[], nohoist?: string[] }''
        Json_workspaces,
      optional ''jspm'' ''any'' ts_any,
      optional ''eslintConfig'' ''object'' ts_object,
      optional ''prettier'' ''object'' ts_object,
      optional ''stylelint'' ''object'' ts_object,
      optional ''ava'' ''object'' ts_object,
      optional ''release'' ''object'' ts_object,
      optional ''jscpd'' ''object'' ts_object]"

definition Json :: "json \<Rightarrow> bool" where
  "Json v = object_type Json_members None v"

section \<open>Validation\<close>

text \<open>
  Modelled from the spec: the entry point \<^verbatim>\<open>validate(document) -> list of violations\<close>
  is not in the repository, which declares the types only. Following the spec, a violation
  is a \<open>ShapeViolation\<close> of a field path, the expected shape and the actual value (none
  when the field is missing); violations are collected in one pass, one top-level key
  after the other, and the empty list means that the document conforms.
\<close>

datatype violation =
  ShapeViolation (path: "string list") (expected: string) (actual: "json option")

text \<open>
  Modelled from the spec: the check of one top-level key. A required member that is
  missing, or a present value that is not of the member's type, is one violation at the
  member's key.
\<close>

definition check_member :: "(string \<times> json) list \<Rightarrow> member \<Rightarrow> violation list" where
  "check_member kvs m =
     (case map_of kvs (m_key m) of
        None \<Rightarrow> if m_optional m then [] else [ShapeViolation [m_key m] (m_expected m) None]
      | Some v \<Rightarrow>
          if m_shape m v then [] else [ShapeViolation [m_key m] (m_expected m) (Some v)])"

text \<open>
  Modelled from the spec: \<^verbatim>\<open>validate(document)\<close>, the members of \<^verbatim>\<open>interface Json\<close>
  checked in their order and every violation kept. A document that is no object is one
  violation at the root.
\<close>

definition validate :: "json \<Rightarrow> violation list" where
  "validate d =
     (case d of
        JObject kvs \<Rightarrow> concat (map (check_member kvs) Json_members)
      | _ \<Rightarrow> [ShapeViolation [] ''Package.Json'' (Some d)])"

section \<open>Vocabulary of the properties\<close>

text \<open>The key \<open>k\<close> of an object is present and holds a string.\<close>

definition string_at :: "(string \<times> json) list \<Rightarrow> string \<Rightarrow> bool" where
  "string_at kvs k = (case map_of kvs k of None \<Rightarrow> False | Some v \<Rightarrow> ts_string v)"

text \<open>The object without its key \<open>f\<close>.\<close>

definition without :: "string \<Rightarrow> (string \<times> json) list \<Rightarrow> (string \<times> json) list" where
  "without f kvs = filter (\<lambda>e. fst e \<noteq> f) kvs"

text \<open>The document \<^verbatim>\<open>{name: "x", version: "1.0.0"}\<close>.\<close>

definition minimal_document :: json where
  "minimal_document = JObject [(''name'', JString ''x''), (''version'', JString ''1.0.0'')]"

text \<open>The four members of \<^verbatim>\<open>interface Json\<close> of type \<^verbatim>\<open>Dependency\<close>.\<close>

definition dependency_fields :: "string list" where
  "dependency_fields =
     [''dependencies'', ''devDependencies'', ''optionalDependencies'', ''peerDependencies'']"

text \<open>
  The four members of \<^verbatim>\<open>interface Json\<close> whose object type has the index signature
  \<^verbatim>\<open>[name: string] : string\<close> or \<^verbatim>\<open>[name: string] : string | undefined\<close>, each with
  its type.
\<close>

definition string_record_fields :: "(string \<times> (json \<Rightarrow> bool)) list" where
  "string_record_fields =
     [(''scripts'', Json_scripts), (''engines'', Json_engines),
      (''publishConfig'', Json_publishConfig), (''esnext'', Json_esnext)]"

text \<open>
  A value of \<^verbatim>\<open>exports\<close> nested \<open>2 * n\<close> levels deep: a fallback sequence holding a
  condition record holding a fallback sequence, and so on. \<open>depth\<close> counts the arrays and
  objects on the longest way down a value.
\<close>

fun nest :: "nat \<Rightarrow> json" where
  "nest 0 = JString ''./index.js''"
| "nest (Suc n) = JArray [JNull, JObject [(''default'', nest n)]]"

fun depth :: "json \<Rightarrow> nat" where
  "depth (JArray vs) = Suc (foldr max (map depth vs) 0)"
| "depth (JObject kvs) = Suc (foldr max (map (\<lambda>e. depth (snd e)) kvs) 0)"
| "depth v = 0"

text \<open>
  The union as the specification's sentence on \<^verbatim>\<open>exports\<close> records lists it,
  \<^verbatim>\<open>path | null | fallback sequence\<close>, a sequence being of the same union. It follows
  the specification's words, not the declaration file, and is compared with
  \<^const>\<open>PackageExportsEntryOrFallback\<close> below.
\<close>

fun spec_exports_union :: "json \<Rightarrow> bool" where
  "spec_exports_union (JString s) = True"
| "spec_exports_union JNull = True"
| "spec_exports_union (JArray vs) = list_all spec_exports_union vs"
| "spec_exports_union v = False"

section \<open>Object types\<close>

lemma object_type_JObject:
  "object_type ms idx (JObject kvs) =
     (list_all (member_ok kvs) ms \<and>
      (case idx of None \<Rightarrow> True | Some T \<Rightarrow> index_signature T kvs) \<and>
      (if weak_type ms idx then shares_property (map m_key ms) kvs else True))"
  by (simp add: object_type_def)

text \<open>A value shares a property with a list of keys: it is empty or holds one of them.\<close>

lemma shares_property_iff:
  "shares_property ks kvs = (kvs = [] \<or> (\<exists>k\<in>set ks. \<exists>x. map_of kvs k = Some x))"
  by (cases kvs) (auto simp: shares_property_def list_ex_iff)

lemma object_type_not_object:
  "object_type ms idx JNull = False"
  "object_type ms idx (JBool b) = False"
  "object_type ms idx (JNumber r) = False"
  "object_type ms idx (JString s) = False"
  "object_type ms idx (JArray vs) = False"
  by (simp_all add: object_type_def)

text \<open>An index signature speaks of every value the object holds.\<close>

lemma index_signature_iff:
  "index_signature T kvs = (\<forall>k v. map_of kvs k = Some v \<longrightarrow> T v)"
proof
  assume h: "index_signature T kvs"
  show "\<forall>k v. map_of kvs k = Some v \<longrightarrow> T v"
  proof (intro allI impI)
    fix k v
    assume kv: "map_of kvs k = Some v"
    then have "k \<in> set (map fst kvs)"
      by (metis map_of_eq_None_iff option.distinct(1) set_map)
    with h kv show "T v"
      by (auto simp: index_signature_def list_all_iff)
  qed
next
  assume "\<forall>k v. map_of kvs k = Some v \<longrightarrow> T v"
  then show "index_signature T kvs"
    by (auto simp: index_signature_def list_all_iff split: option.splits)
qed

lemma ts_boolean_iff: "ts_boolean v = (\<exists>b. v = JBool b)"
  by (cases v) simp_all

lemma required_string:
  "member_ok kvs (required k e ts_string) = string_at kvs k"
  by (simp add: member_ok_def string_at_def split: option.splits)

lemma optional_string_under_index:
  "\<forall>k v. map_of kvs k = Some v \<longrightarrow> ts_string v \<Longrightarrow> member_ok kvs (optional k e ts_string)"
  by (simp add: member_ok_def split: option.splits)

lemma optional_strings_under_index:
  assumes "\<forall>k v. map_of kvs k = Some v \<longrightarrow> ts_string v"
  shows "list_all (member_ok kvs) (map (\<lambda>k. optional k e ts_string) ks)"
  using assms by (induction ks) (simp_all add: optional_string_under_index)

lemma strings_only_iff:
  "index_signature (\<lambda>x. ts_string x \<or> ts_undefined x) kvs =
     (\<forall>k v. map_of kvs k = Some v \<longrightarrow> ts_string v)"
  by (simp add: index_signature_iff ts_undefined_def)

lemma optional_member_ok:
  "m_optional m \<Longrightarrow>
   member_ok kvs m = (case map_of kvs (m_key m) of None \<Rightarrow> True | Some v \<Rightarrow> m_shape m v)"
  by (simp add: member_ok_def split: option.splits)

subsection \<open>Taking a key away\<close>

lemma map_of_without:
  "map_of (without f kvs) k = (if k = f then None else map_of kvs k)"
  by (induction kvs) (auto simp: without_def)

lemma member_ok_without:
  "m_key m \<noteq> f \<Longrightarrow> member_ok (without f kvs) m = member_ok kvs m"
  by (simp add: member_ok_def map_of_without)

lemma member_ok_without_optional:
  "m_key m = f \<Longrightarrow> m_optional m \<Longrightarrow> member_ok (without f kvs) m"
  by (simp add: member_ok_def map_of_without)

text \<open>
  A present key \<open>f\<close> that the member list declares optional, of type \<open>S\<close>, contributes
  exactly the check of its value against \<open>S\<close>.
\<close>

lemma members_field_split:
  assumes at: "map_of kvs f = Some v"
    and ex: "\<exists>m\<in>set ms. m_key m = f"
    and sh: "\<forall>m\<in>set ms. m_key m = f \<longrightarrow> m_optional m \<and> m_shape m = S"
  shows "list_all (member_ok kvs) ms = (S v \<and> list_all (member_ok (without f kvs)) ms)"
proof
  assume all: "list_all (member_ok kvs) ms"
  from ex obtain m where m: "m \<in> set ms" "m_key m = f" by blast
  with all have "member_ok kvs m" by (simp add: list_all_iff)
  with m at sh have "S v" by (auto simp: member_ok_def)
  moreover have "member_ok (without f kvs) m'" if "m' \<in> set ms" for m'
  proof (cases "m_key m' = f")
    case True
    with sh that show ?thesis by (simp add: member_ok_without_optional)
  next
    case False
    with all that show ?thesis by (simp add: member_ok_without list_all_iff)
  qed
  ultimately show "S v \<and> list_all (member_ok (without f kvs)) ms"
    by (simp add: list_all_iff)
next
  assume r: "S v \<and> list_all (member_ok (without f kvs)) ms"
  have "member_ok kvs m'" if "m' \<in> set ms" for m'
  proof (cases "m_key m' = f")
    case True
    with sh that r at show ?thesis by (auto simp: member_ok_def)
  next
    case False
    with r that show ?thesis by (auto simp: member_ok_without list_all_iff)
  qed
  then show "list_all (member_ok kvs) ms" by (simp add: list_all_iff)
qed

section \<open>The interface Json\<close>

lemma Json_members_split:
  "Json_members =
     required ''name'' ''string'' ts_string # required ''version'' ''string'' ts_string #
     drop 2 Json_members"
  by (simp add: Json_members_def)

text \<open>With its two required members the interface is no weak type.\<close>

lemma Json_JObject: "Json (JObject kvs) = list_all (member_ok kvs) Json_members"
proof -
  have "\<not> list_all m_optional Json_members"
    by (subst Json_members_split) simp
  then show ?thesis
    by (simp add: Json_def object_type_JObject weak_type_def)
qed

lemma Json_field_split:
  assumes "map_of kvs f = Some v"
    and "\<exists>m\<in>set Json_members. m_key m = f"
    and "\<forall>m\<in>set Json_members. m_key m = f \<longrightarrow> m_optional m \<and> m_shape m = S"
  shows "Json (JObject kvs) = (S v \<and> Json (JObject (without f kvs)))"
  using members_field_split [OF assms] by (simp add: Json_JObject)

lemma Json_rest_optional:
  "\<forall>m\<in>set (drop 2 Json_members).
     m_optional m \<and> m_key m \<noteq> ''name'' \<and> m_key m \<noteq> ''version''"
  by (simp add: Json_members_def)

lemma Json_iff:
  "Json (JObject kvs) =
     (string_at kvs ''name'' \<and> string_at kvs ''version'' \<and>
      list_all (member_ok kvs) (drop 2 Json_members))"
proof -
  have "Json (JObject kvs) = list_all (member_ok kvs) Json_members"
    by (simp add: Json_JObject)
  also have "\<dots> = list_all (member_ok kvs)
      (required ''name'' ''string'' ts_string # required ''version'' ''string'' ts_string #
       drop 2 Json_members)"
    using Json_members_split by simp
  finally show ?thesis by (simp add: required_string)
qed

lemma Json_without:
  assumes "Json (JObject kvs)" and "f \<noteq> ''name''" and "f \<noteq> ''version''"
  shows "Json (JObject (without f kvs))"
proof -
  have "member_ok (without f kvs) m" if "m \<in> set (drop 2 Json_members)" for m
  proof (cases "m_key m = f")
    case True
    with that Json_rest_optional show ?thesis by (simp add: member_ok_without_optional)
  next
    case False
    with that assms(1) show ?thesis
      by (simp add: Json_iff member_ok_without list_all_iff)
  qed
  with assms show ?thesis
    by (simp add: Json_iff string_at_def map_of_without list_all_iff)
qed

lemma Json_minimal: "Json minimal_document"
  unfolding minimal_document_def Json_iff
  by (simp add: string_at_def Json_members_def member_ok_def)

text \<open>The members that the properties below look up in the interface.\<close>

lemma Json_type_member:
  "(\<exists>m\<in>set Json_members. m_key m = ''type'') \<and>
   (\<forall>m\<in>set Json_members. m_key m = ''type'' \<longrightarrow> m_optional m \<and> m_shape m = ts_string)"
  by (simp add: Json_members_def)

lemma Json_man_member:
  "(\<exists>m\<in>set Json_members. m_key m = ''man'') \<and>
   (\<forall>m\<in>set Json_members. m_key m = ''man'' \<longrightarrow> m_optional m \<and> m_shape m = Json_man)"
  by (simp add: Json_members_def)

lemma Json_dependency_members:
  "f \<in> set dependency_fields \<Longrightarrow>
   (\<exists>m\<in>set Json_members. m_key m = f) \<and>
   (\<forall>m\<in>set Json_members. m_key m = f \<longrightarrow> m_optional m \<and> m_shape m = Dependency)"
  by (auto simp: dependency_fields_def Json_members_def)

lemma Json_string_record_members:
  "(f, T) \<in> set string_record_fields \<Longrightarrow>
   (\<exists>m\<in>set Json_members. m_key m = f) \<and>
   (\<forall>m\<in>set Json_members. m_key m = f \<longrightarrow> m_optional m \<and> m_shape m = T)"
  by (auto simp: string_record_fields_def Json_members_def)

section \<open>The open records of strings\<close>

lemma Dependency_iff:
  "Dependency (JObject kvs) = (\<forall>k v. map_of kvs k = Some v \<longrightarrow> ts_string v)"
  by (simp add: Dependency_def object_type_JObject weak_type_def index_signature_iff)

lemma scripts_iff:
  "Json_scripts (JObject kvs) = (\<forall>k v. map_of kvs k = Some v \<longrightarrow> ts_string v)"
  using optional_strings_under_index [of kvs "''string''" script_names]
  by (auto simp: Json_scripts_def object_type_JObject weak_type_def strings_only_iff)

lemma publishConfig_iff:
  "Json_publishConfig (JObject kvs) = (\<forall>k v. map_of kvs k = Some v \<longrightarrow> ts_string v)"
  using optional_string_under_index [of kvs]
  by (auto simp: Json_publishConfig_def object_type_JObject weak_type_def strings_only_iff)

lemma esnext_iff:
  "Json_esnext (JObject kvs) = (\<forall>k v. map_of kvs k = Some v \<longrightarrow> ts_string v)"
  using optional_string_under_index [of kvs]
  by (auto simp: Json_esnext_def object_type_JObject weak_type_def strings_only_iff)

lemma engines_iff:
  "Json_engines (JObject kvs) =
     (string_at kvs ''node'' \<and> (\<forall>k v. map_of kvs k = Some v \<longrightarrow> ts_string v))"
  by (simp add: Json_engines_def object_type_JObject weak_type_def index_signature_iff required_string)

section \<open>Validation\<close>

lemma check_member_path:
  "x \<in> set (check_member kvs m) \<Longrightarrow> path x = [m_key m]"
  by (auto simp: check_member_def split: option.splits if_splits)

lemma check_member_other:
  "m_key m \<noteq> f \<Longrightarrow> check_member ((f, v) # kvs) m = check_member kvs m"
  by (simp add: check_member_def)

text \<open>Members with another key report nothing at \<open>f\<close> and do not see \<open>f\<close>.\<close>

lemma check_others:
  assumes "\<forall>m\<in>set ms. m_key m \<noteq> f"
  shows "filter (\<lambda>x. path x = [f]) (concat (map (check_member kvs) ms)) = [] \<and>
         filter (\<lambda>x. path x \<noteq> [f]) (concat (map (check_member kvs) ms)) =
           concat (map (check_member kvs) ms) \<and>
         concat (map (check_member ((f, v) # kvs)) ms) = concat (map (check_member kvs) ms)"
  using assms
proof (induction ms)
  case Nil
  show ?case by simp
next
  case (Cons m ms)
  then have k: "m_key m \<noteq> f" by simp
  have "\<forall>x\<in>set (check_member kvs m). path x \<noteq> [f]"
    using k by (auto dest: check_member_path)
  then have "filter (\<lambda>x. path x = [f]) (check_member kvs m) = []"
    and "filter (\<lambda>x. path x \<noteq> [f]) (check_member kvs m) = check_member kvs m"
    by (simp_all add: filter_empty_conv filter_id_conv)
  with Cons k show ?case by (simp add: check_member_other)
qed

text \<open>The empty list of violations is conformance to \<^verbatim>\<open>interface Json\<close>.\<close>

lemma validate_nil_iff: "validate d = [] \<longleftrightarrow> Json d"
proof (cases d)
  case (JObject kvs)
  have "concat (map (check_member kvs) ms) = [] \<longleftrightarrow> list_all (member_ok kvs) ms" for ms
    by (induction ms) (auto simp: check_member_def member_ok_def split: option.splits)
  with JObject show ?thesis by (simp add: validate_def Json_JObject)
qed (simp_all add: validate_def Json_def object_type_not_object)

lemma validate_split:
  "validate (JObject kvs) =
     check_member kvs (required ''name'' ''string'' ts_string) @
     check_member kvs (required ''version'' ''string'' ts_string) @
     concat (map (check_member kvs) (drop 2 Json_members))"
proof -
  have "validate (JObject kvs) = concat (map (check_member kvs) Json_members)"
    by (simp add: validate_def)
  also have "\<dots> = concat (map (check_member kvs)
      (required ''name'' ''string'' ts_string # required ''version'' ''string'' ts_string #
       drop 2 Json_members))"
    using Json_members_split by simp
  finally show ?thesis by simp
qed

section \<open>The exports union\<close>

text \<open>
  The recursive definition of \<^verbatim>\<open>PackageExportsEntryObject\<close> is the object type of its
  five optional members, without an index signature, a weak type.
\<close>

lemma EntryObject_object_type:
  "PackageExportsEntryObject v =
     object_type
       (map (\<lambda>k. optional k ''PackageExportsEntryOrFallback'' PackageExportsEntryOrFallback)
          condition_keys) None v"
proof (cases v)
  case (JObject kvs)
  have "list_all (member_ok kvs)
      (map (\<lambda>k. optional k ''PackageExportsEntryOrFallback'' PackageExportsEntryOrFallback) ks) =
    list_all
      (\<lambda>k. case map_of kvs k of None \<Rightarrow> True | Some x \<Rightarrow> PackageExportsEntryOrFallback x) ks"
    for ks
    by (induction ks)
      (simp_all add: member_ok_def del: PackageExportsEntryOrFallback.simps split: option.splits)
  then have members: "list_all (member_ok kvs)
      (map (\<lambda>k. optional k ''PackageExportsEntryOrFallback'' PackageExportsEntryOrFallback)
         condition_keys) =
    list_all
      (\<lambda>k. case map_of kvs k of None \<Rightarrow> True | Some x \<Rightarrow> PackageExportsEntryOrFallback x)
      condition_keys" .
  have weak: "weak_type
      (map (\<lambda>k. optional k ''PackageExportsEntryOrFallback'' PackageExportsEntryOrFallback)
         condition_keys) None"
    by (simp add: weak_type_def condition_keys_def)
  have keys: "map m_key
      (map (\<lambda>k. optional k ''PackageExportsEntryOrFallback'' PackageExportsEntryOrFallback)
         condition_keys) = condition_keys"
    by (simp add: comp_def)
  show ?thesis
    unfolding JObject object_type_JObject members keys using weak
    by (simp del: PackageExportsEntryOrFallback.simps)
qed (simp_all add: object_type_not_object)

lemma Entry_cases:
  "PackageExportsEntry =
     (\<lambda>x. case x of
             JString s \<Rightarrow> True
           | JNull \<Rightarrow> True
           | JObject kvs \<Rightarrow> PackageExportsEntryObject x
           | _ \<Rightarrow> False)"
proof
  fix x
  show "PackageExportsEntry x =
      (case x of JString s \<Rightarrow> True | JNull \<Rightarrow> True
       | JObject kvs \<Rightarrow> PackageExportsEntryObject x | _ \<Rightarrow> False)"
    by (cases x) (simp_all add: PackageExportsEntryPath_def)
qed

lemma EntryOrFallback_cases:
  "PackageExportsEntryOrFallback v =
     (case v of
        JString s \<Rightarrow> True
      | JNull \<Rightarrow> True
      | JObject kvs \<Rightarrow> PackageExportsEntryObject v
      | JArray vs \<Rightarrow>
          list_all
            (\<lambda>x. case x of
                    JString s \<Rightarrow> True
                  | JNull \<Rightarrow> True
                  | JObject kvs \<Rightarrow> PackageExportsEntryObject x
                  | _ \<Rightarrow> False) vs
      | _ \<Rightarrow> False)"
proof (cases v)
  case (JArray vs)
  have "PackageExportsEntryOrFallback (JArray vs) = list_all PackageExportsEntry vs"
    by (simp add: PackageExportsEntryPath_def)
  with JArray show ?thesis by (simp only: Entry_cases json.case)
qed (simp_all add: PackageExportsEntryPath_def)

text \<open>
  A condition record: empty or with one of the five conditions, and the value of every
  condition it holds of the whole union.
\<close>

lemma EntryObject_iff:
  "PackageExportsEntryObject (JObject kvs) =
     ((kvs = [] \<or> (\<exists>k\<in>set condition_keys. \<exists>x. map_of kvs k = Some x)) \<and>
      (\<forall>k\<in>set condition_keys. \<forall>x. map_of kvs k = Some x \<longrightarrow>
         PackageExportsEntryOrFallback x))"
  by (auto simp: list_all_iff shares_property_iff split: option.splits)

text \<open>
  An object is an \<^verbatim>\<open>exports\<close> value through the index signature or as a condition
  record.
\<close>

lemma Json_exports_record:
  "Json_exports (JObject kvs) =
     (index_signature PackageExportsEntryOrFallback kvs \<or>
      PackageExportsEntryObject (JObject kvs))"
  by (simp add: Json_exports_def object_type_JObject weak_type_def PackageExportsEntryPath_def
      del: PackageExportsEntryObject.simps)

lemma Json_exports_conditions:
  assumes "set (map fst kvs) \<subseteq> set condition_keys"
  shows "Json_exports (JObject kvs) =
     (\<forall>k x. map_of kvs k = Some x \<longrightarrow> PackageExportsEntryOrFallback x)"
proof -
  have "k \<in> set condition_keys" if "map_of kvs k = Some x" for k x
    using that assms by (metis map_of_eq_None_iff option.distinct(1) set_map subsetD)
  then have "PackageExportsEntryObject (JObject kvs) \<Longrightarrow>
      \<forall>k x. map_of kvs k = Some x \<longrightarrow> PackageExportsEntryOrFallback x"
    unfolding EntryObject_iff by blast
  then show ?thesis
    unfolding Json_exports_record index_signature_iff by blast
qed

lemma Json_exports_of_EntryOrFallback:
  "PackageExportsEntryOrFallback v \<Longrightarrow> Json_exports v"
  by (auto simp: Json_exports_def)

lemma nest_accepted: "PackageExportsEntryOrFallback (nest n)"
  by (induction n)
    (simp_all add: PackageExportsEntryPath_def condition_keys_def shares_property_def)

lemma depth_nest: "depth (nest n) = 2 * n"
  by (induction n) simp_all

section \<open>The claims\<close>

text \<open>
  Claim C1. A document conforms to \<^verbatim>\<open>interface Json\<close> exactly when \<^verbatim>\<open>name\<close> and
  \<^verbatim>\<open>version\<close> are present and strings and every other declared member that is present
  has its declared type: none of the others is required. Each of them is optional on its
  own, since taking any key but \<^verbatim>\<open>name\<close> and \<^verbatim>\<open>version\<close> away from a conforming
  document leaves a conforming document. The minimal document
  \<^verbatim>\<open>{name: "x", version: "1.0.0"}\<close> conforms, which by \<open>validate_nil_iff\<close> is to
  say that validating it yields no violation.
\<close>

theorem name_and_version_required:
  "(Json (JObject kvs) \<longleftrightarrow>
      string_at kvs ''name'' \<and> string_at kvs ''version'' \<and>
      (\<forall>m\<in>set Json_members. m_key m \<noteq> ''name'' \<and> m_key m \<noteq> ''version'' \<longrightarrow>
         (case map_of kvs (m_key m) of None \<Rightarrow> True | Some v \<Rightarrow> m_shape m v))) \<and>
   (Json (JObject kvs) \<and> f \<noteq> ''name'' \<and> f \<noteq> ''version'' \<longrightarrow>
      Json (JObject (without f kvs))) \<and>
   Json minimal_document"
proof -
  have "list_all (member_ok kvs) (drop 2 Json_members) =
      (\<forall>m\<in>set (drop 2 Json_members).
         case map_of kvs (m_key m) of None \<Rightarrow> True | Some v \<Rightarrow> m_shape m v)"
    using Json_rest_optional by (auto simp: list_all_iff optional_member_ok)
  also have "\<dots> =
      (\<forall>m\<in>set Json_members. m_key m \<noteq> ''name'' \<and> m_key m \<noteq> ''version'' \<longrightarrow>
         (case map_of kvs (m_key m) of None \<Rightarrow> True | Some v \<Rightarrow> m_shape m v))"
    using Json_rest_optional by (subst (2) Json_members_split) auto
  finally show ?thesis
    using Json_without [of kvs f] Json_minimal by (auto simp: Json_iff)
qed

text \<open>
  At a document with \<^verbatim>\<open>name\<close>, \<^verbatim>\<open>version\<close> and \<^verbatim>\<open>license\<close>: it conforms, it
  conforms without its \<^verbatim>\<open>license\<close>, and a document with a \<^verbatim>\<open>name\<close> only does not.
\<close>

theorem name_and_version_required_witness:
  "Json (JObject [(''name'', JString ''x''), (''version'', JString ''1.0.0''),
      (''license'', JString ''MIT'')]) \<and>
   Json (JObject (without ''license'' [(''name'', JString ''x''),
      (''version'', JString ''1.0.0''), (''license'', JString ''MIT'')])) \<and>
   \<not> Json (JObject [(''name'', JString ''x'')])"
proof -
  let ?d = "[(''name'', JString ''x''), (''version'', JString ''1.0.0''),
      (''license'', JString ''MIT'')]"
  have others: "\<forall>m\<in>set Json_members. m_key m \<noteq> ''name'' \<and> m_key m \<noteq> ''version'' \<longrightarrow>
      (case map_of ?d (m_key m) of None \<Rightarrow> True | Some v \<Rightarrow> m_shape m v)"
    by (simp add: Json_members_def)
  have "string_at ?d ''name''" and "string_at ?d ''version''"
    by (simp_all add: string_at_def)
  with others have d: "Json (JObject ?d)"
    using name_and_version_required [of ?d "''license''"] by blast
  then have "Json (JObject (without ''license'' ?d))"
    using name_and_version_required [of ?d "''license''"] by simp
  moreover have "\<not> string_at [(''name'', JString ''x'')] ''version''"
    by (simp add: string_at_def)
  then have "\<not> Json (JObject [(''name'', JString ''x'')])"
    using name_and_version_required [of "[(''name'', JString ''x'')]" "''license''"] by blast
  ultimately show ?thesis using d by blast
qed

text \<open>
  Claim C2. For a document in which \<^verbatim>\<open>name\<close> (or \<^verbatim>\<open>version\<close>) is missing, validation
  reports one ShapeViolation at that field, with nothing as the actual value; and the
  violations at every other path are those of the same document with the field supplied,
  so the absence causes no other violation.
\<close>

theorem missing_required_field_reported:
  assumes "f = ''name'' \<or> f = ''version''" and "map_of kvs f = None"
  shows "filter (\<lambda>x. path x = [f]) (validate (JObject kvs)) =
           [ShapeViolation [f] ''string'' None] \<and>
         filter (\<lambda>x. path x \<noteq> [f]) (validate (JObject kvs)) =
           validate (JObject ((f, JString s) # kvs))"
proof -
  have rest: "\<forall>m\<in>set (drop 2 Json_members). m_key m \<noteq> f"
    using Json_rest_optional assms(1) by auto
  note r = check_others [OF rest, of kvs "JString s"]
  from assms(1) show ?thesis
  proof
    assume f: "f = ''name''"
    have v: "filter (\<lambda>x. path x = [f])
          (check_member kvs (required ''version'' ''string'' ts_string)) = []"
      "filter (\<lambda>x. path x \<noteq> [f])
          (check_member kvs (required ''version'' ''string'' ts_string)) =
         check_member kvs (required ''version'' ''string'' ts_string)"
      using f by (auto simp: check_member_def split: option.splits)
    show ?thesis
      using assms(2) r v unfolding validate_split
      by (simp add: check_member_other f) (simp add: check_member_def f)
  next
    assume f: "f = ''version''"
    have v: "filter (\<lambda>x. path x = [f])
          (check_member kvs (required ''name'' ''string'' ts_string)) = []"
      "filter (\<lambda>x. path x \<noteq> [f])
          (check_member kvs (required ''name'' ''string'' ts_string)) =
         check_member kvs (required ''name'' ''string'' ts_string)"
      using f by (auto simp: check_member_def split: option.splits)
    show ?thesis
      using assms(2) r v unfolding validate_split
      by (simp add: check_member_other f) (simp add: check_member_def f)
  qed
qed

text \<open>
  At the document \<^verbatim>\<open>{version: "1.0.0", license: 7}\<close>: the one violation at \<^verbatim>\<open>name\<close> is
  the missing field, and the rest is what \<^verbatim>\<open>{name: "x", version: "1.0.0", license: 7}\<close>
  gives.
\<close>

theorem missing_required_field_reported_witness:
  "filter (\<lambda>x. path x = [''name''])
     (validate (JObject [(''version'', JString ''1.0.0''), (''license'', JNumber 7)])) =
     [ShapeViolation [''name''] ''string'' None] \<and>
   filter (\<lambda>x. path x \<noteq> [''name''])
     (validate (JObject [(''version'', JString ''1.0.0''), (''license'', JNumber 7)])) =
     validate (JObject [(''name'', JString ''x''), (''version'', JString ''1.0.0''),
       (''license'', JNumber 7)])"
  using missing_required_field_reported
    [of "''name''" "[(''version'', JString ''1.0.0''), (''license'', JNumber 7)]" "''x''"]
  by simp

text \<open>
  Claim C3, as amended. The union of \<^verbatim>\<open>exports\<close> values is recursive: a value of
  \<^verbatim>\<open>PackageExportsEntryOrFallback\<close> is a path, null, a condition record, or a fallback
  sequence; the elements of a fallback sequence are paths, nulls and condition records,
  not sequences. A condition record is a record that is empty or holds at least one of the
  five conditions, and the value of each condition it holds is again of the whole union.
  Every value of the union is an \<^verbatim>\<open>exports\<close> value, and sequences and records nest to
  any depth through one another: \<open>nest n\<close> is accepted and is \<open>2 * n\<close> levels deep.
\<close>

theorem exports_union_recursive:
  "(PackageExportsEntryOrFallback v \<longleftrightarrow>
      (case v of
         JString s \<Rightarrow> True
       | JNull \<Rightarrow> True
       | JObject kvs \<Rightarrow> PackageExportsEntryObject v
       | JArray vs \<Rightarrow>
           list_all
             (\<lambda>x. case x of
                     JString s \<Rightarrow> True
                   | JNull \<Rightarrow> True
                   | JObject kvs \<Rightarrow> PackageExportsEntryObject x
                   | _ \<Rightarrow> False) vs
       | _ \<Rightarrow> False)) \<and>
   (PackageExportsEntryObject (JObject kvs) \<longleftrightarrow>
      (kvs = [] \<or> (\<exists>k\<in>set condition_keys. \<exists>x. map_of kvs k = Some x)) \<and>
      (\<forall>k\<in>set condition_keys. \<forall>x. map_of kvs k = Some x \<longrightarrow>
         PackageExportsEntryOrFallback x)) \<and>
   (PackageExportsEntryOrFallback v \<longrightarrow> Json_exports v) \<and>
   Json_exports (nest n) \<and> depth (nest n) = 2 * n"
proof (intro conjI)
  show "PackageExportsEntryOrFallback v \<longleftrightarrow>
      (case v of
         JString s \<Rightarrow> True
       | JNull \<Rightarrow> True
       | JObject kvs \<Rightarrow> PackageExportsEntryObject v
       | JArray vs \<Rightarrow>
           list_all
             (\<lambda>x. case x of
                     JString s \<Rightarrow> True
                   | JNull \<Rightarrow> True
                   | JObject kvs \<Rightarrow> PackageExportsEntryObject x
                   | _ \<Rightarrow> False) vs
       | _ \<Rightarrow> False)"
    by (rule EntryOrFallback_cases)
  show "PackageExportsEntryObject (JObject kvs) \<longleftrightarrow>
      (kvs = [] \<or> (\<exists>k\<in>set condition_keys. \<exists>x. map_of kvs k = Some x)) \<and>
      (\<forall>k\<in>set condition_keys. \<forall>x. map_of kvs k = Some x \<longrightarrow>
         PackageExportsEntryOrFallback x)"
    by (rule EntryObject_iff)
  show "PackageExportsEntryOrFallback v \<longrightarrow> Json_exports v"
    by (simp add: Json_exports_of_EntryOrFallback)
  show "Json_exports (nest n)"
    by (simp add: Json_exports_of_EntryOrFallback nest_accepted
        del: PackageExportsEntryOrFallback.simps)
  show "depth (nest n) = 2 * n"
    by (rule depth_nest)
qed

text \<open>
  At the sequence \<^verbatim>\<open>[{import: ["./a.mjs", null]}]\<close>, a sequence inside a record inside a
  sequence; at the record \<^verbatim>\<open>{browser: "./x.js"}\<close>, which holds none of the five
  conditions and is no condition record; and at \<open>nest 2\<close>.
\<close>

theorem exports_union_recursive_witness:
  "PackageExportsEntryOrFallback
     (JArray [JObject [(''import'', JArray [JString ''./a.mjs'', JNull])]]) \<and>
   Json_exports (JArray [JObject [(''import'', JArray [JString ''./a.mjs'', JNull])]]) \<and>
   \<not> PackageExportsEntryObject (JObject [(''browser'', JString ''./x.js'')]) \<and>
   Json_exports (nest (Suc (Suc 0))) \<and> depth (nest (Suc (Suc 0))) = 4"
proof -
  let ?inner = "JArray [JString ''./a.mjs'', JNull]"
  let ?kvs = "[(''import'', ?inner)]"
  let ?other = "[(''browser'', JString ''./x.js'')]"
  have inner: "PackageExportsEntryOrFallback ?inner"
    using exports_union_recursive [of ?inner ?kvs 0] by simp
  have "?kvs = [] \<or> (\<exists>k\<in>set condition_keys. \<exists>x. map_of ?kvs k = Some x)"
    by (simp add: condition_keys_def)
  moreover have "\<forall>k\<in>set condition_keys. \<forall>x. map_of ?kvs k = Some x \<longrightarrow>
      PackageExportsEntryOrFallback x"
    using inner by (simp del: PackageExportsEntryOrFallback.simps)
  ultimately have rec: "PackageExportsEntryObject (JObject ?kvs)"
    using exports_union_recursive [of ?inner ?kvs 0] by blast
  have outer: "PackageExportsEntryOrFallback (JArray [JObject ?kvs])"
    using rec exports_union_recursive [of "JArray [JObject ?kvs]" ?kvs 0]
    by (simp del: PackageExportsEntryOrFallback.simps PackageExportsEntryObject.simps)
  then have top: "Json_exports (JArray [JObject ?kvs])"
    using exports_union_recursive [of "JArray [JObject ?kvs]" ?kvs 0] by blast
  have "\<not> (?other = [] \<or> (\<exists>k\<in>set condition_keys. \<exists>x. map_of ?other k = Some x))"
    by (simp add: condition_keys_def)
  then have other: "\<not> PackageExportsEntryObject (JObject ?other)"
    using exports_union_recursive [of ?inner ?other 0] by blast
  from outer top other show ?thesis
    using exports_union_recursive [of ?inner ?kvs "Suc (Suc 0)"] by simp
qed

text \<open>
  Claim C3 as the specification states it lets the elements of a fallback sequence range
  over the whole union, sequences included. The sequence \<^verbatim>\<open>["./a.js"]\<close> is of the union,
  and the sequence \<^verbatim>\<open>[["./a.js"]]\<close> that holds it is not, nor is it an \<^verbatim>\<open>exports\<close> value.
\<close>

theorem exports_sequence_of_sequence_counterexample:
  "PackageExportsEntryOrFallback (JArray [JString ''./a.js'']) \<and>
   \<not> PackageExportsEntryOrFallback (JArray [JArray [JString ''./a.js'']]) \<and>
   \<not> Json_exports (JArray [JArray [JString ''./a.js'']])"
  by (simp add: Json_exports_def PackageExportsEntryPath_def object_type_not_object)

text \<open>
  Claim C4, as amended. An \<^verbatim>\<open>exports\<close> value that is a string or null is accepted. An
  \<^verbatim>\<open>exports\<close> record whose keys are among \<^verbatim>\<open>require\<close>, \<^verbatim>\<open>import\<close>, \<^verbatim>\<open>node\<close>,
  \<^verbatim>\<open>default\<close>, \<^verbatim>\<open>types\<close> is accepted exactly when the value of each key it holds is,
  on its own, of \<^verbatim>\<open>PackageExportsEntryOrFallback\<close>: a path or null, a condition record,
  or a fallback sequence of paths, nulls and condition records.
\<close>

theorem exports_conditions_checked_independently:
  "Json_exports (JString s) \<and> Json_exports JNull \<and>
   (set (map fst kvs) \<subseteq> set condition_keys \<longrightarrow>
      (Json_exports (JObject kvs) \<longleftrightarrow>
         (\<forall>k x. map_of kvs k = Some x \<longrightarrow> PackageExportsEntryOrFallback x))) \<and>
   (PackageExportsEntryOrFallback v \<longleftrightarrow>
      PackageExportsEntryPath v \<or> PackageExportsEntryObject v \<or>
      ts_array (\<lambda>x. PackageExportsEntryPath x \<or> PackageExportsEntryObject x) v)"
proof -
  have "PackageExportsFallback v =
      ts_array (\<lambda>x. PackageExportsEntryPath x \<or> PackageExportsEntryObject x) v"
    by (cases v) (simp_all add: list_all_iff)
  then have "PackageExportsEntryOrFallback v \<longleftrightarrow>
      PackageExportsEntryPath v \<or> PackageExportsEntryObject v \<or>
      ts_array (\<lambda>x. PackageExportsEntryPath x \<or> PackageExportsEntryObject x) v"
    by auto
  moreover have "Json_exports (JString s)" and "Json_exports JNull"
    by (simp_all add: Json_exports_def PackageExportsEntryPath_def)
  ultimately show ?thesis
    using Json_exports_conditions [of kvs] by blast
qed

text \<open>
  At the record \<^verbatim>\<open>{types: "./index.d.ts", import: {default: "./index.mjs"}}\<close>, whose
  \<^verbatim>\<open>import\<close> is a condition record, and at \<^verbatim>\<open>{require: 1}\<close>, which is refused.
\<close>

theorem exports_conditions_checked_independently_witness:
  "Json_exports
     (JObject [(''types'', JString ''./index.d.ts''),
        (''import'', JObject [(''default'', JString ''./index.mjs'')])]) \<and>
   \<not> Json_exports (JObject [(''require'', JNumber 1)])"
proof -
  let ?kvs = "[(''types'', JString ''./index.d.ts''),
      (''import'', JObject [(''default'', JString ''./index.mjs'')])]"
  have "set (map fst ?kvs) \<subseteq> set condition_keys"
    by (simp add: condition_keys_def)
  moreover have "\<forall>k x. map_of ?kvs k = Some x \<longrightarrow> PackageExportsEntryOrFallback x"
    by (simp add: PackageExportsEntryPath_def condition_keys_def shares_property_def)
  ultimately have a: "Json_exports (JObject ?kvs)"
    using exports_conditions_checked_independently [of "''.''" ?kvs JNull] by blast
  have "set (map fst [(''require'', JNumber 1)]) \<subseteq> set condition_keys"
    by (simp add: condition_keys_def)
  moreover have "map_of [(''require'', JNumber 1)] ''require'' = Some (JNumber 1)"
    by simp
  moreover have "\<not> PackageExportsEntryOrFallback (JNumber 1)"
    by (simp add: PackageExportsEntryPath_def)
  ultimately have "\<not> Json_exports (JObject [(''require'', JNumber 1)])"
    using exports_conditions_checked_independently
      [of "''.''" "[(''require'', JNumber 1)]" JNull] by blast
  with a show ?thesis by blast
qed

text \<open>
  Claim C4 as the specification states it gives the union of a condition's value as
  \<^verbatim>\<open>path | null | fallback sequence\<close>. The record \<^verbatim>\<open>{import: {default: "./index.mjs"}}\<close>
  is accepted, and the value of its \<^verbatim>\<open>import\<close> is none of the three.
\<close>

theorem exports_condition_record_counterexample:
  "Json_exports (JObject [(''import'', JObject [(''default'', JString ''./index.mjs'')])]) \<and>
   \<not> spec_exports_union (JObject [(''default'', JString ''./index.mjs'')])"
  by (simp add: Json_exports_def PackageExportsEntryPath_def condition_keys_def
      shares_property_def)

text \<open>
  Claim C5, as amended. \<^verbatim>\<open>peerDependenciesMeta\<close> is accepted exactly when every entry
  is a record in which \<^verbatim>\<open>optional\<close> is present and boolean and every value is a string
  or a boolean: a record without \<^verbatim>\<open>optional\<close> is refused, and the other keys are free
  in name, not in the type of their values.
\<close>

theorem peerDependenciesMeta_entries:
  "Json_peerDependenciesMeta (JObject kvs) \<longleftrightarrow>
     (\<forall>k v. map_of kvs k = Some v \<longrightarrow>
        (\<exists>es. v = JObject es \<and>
           (\<exists>b. map_of es ''optional'' = Some (JBool b)) \<and>
           (\<forall>p x. map_of es p = Some x \<longrightarrow> ts_string x \<or> ts_boolean x)))"
proof -
  have sub: "object_type [required ''optional'' ''boolean'' ts_boolean]
          (Some (\<lambda>x. ts_string x \<or> ts_boolean x \<or> ts_undefined x)) v =
        (\<exists>es. v = JObject es \<and>
           (\<exists>b. map_of es ''optional'' = Some (JBool b)) \<and>
           (\<forall>p x. map_of es p = Some x \<longrightarrow> ts_string x \<or> ts_boolean x))" for v
    by (cases v)
      (auto simp: object_type_JObject weak_type_def object_type_not_object index_signature_iff member_ok_def
        ts_undefined_def ts_boolean_iff split: option.splits)
  show ?thesis
    by (simp add: Json_peerDependenciesMeta_def object_type_JObject weak_type_def index_signature_iff sub)
qed

text \<open>
  At \<^verbatim>\<open>{react: {optional: true, foo: "bar"}}\<close>, which is accepted, and at
  \<^verbatim>\<open>{react: {foo: "bar"}}\<close>, which lacks \<^verbatim>\<open>optional\<close> and is refused.
\<close>

theorem peerDependenciesMeta_entries_witness:
  "Json_peerDependenciesMeta
     (JObject [(''react'', JObject [(''optional'', JBool True), (''foo'', JString ''bar'')])]) \<and>
   \<not> Json_peerDependenciesMeta (JObject [(''react'', JObject [(''foo'', JString ''bar'')])])"
proof -
  let ?good = "[(''react'', JObject [(''optional'', JBool True), (''foo'', JString ''bar'')])]"
  let ?bad = "[(''react'', JObject [(''foo'', JString ''bar'')])]"
  have "\<forall>k v. map_of ?good k = Some v \<longrightarrow>
      (\<exists>es. v = JObject es \<and>
         (\<exists>b. map_of es ''optional'' = Some (JBool b)) \<and>
         (\<forall>p x. map_of es p = Some x \<longrightarrow> ts_string x \<or> ts_boolean x))"
    by auto
  then have good: "Json_peerDependenciesMeta (JObject ?good)"
    using peerDependenciesMeta_entries [of ?good] by blast
  have "map_of ?bad ''react'' = Some (JObject [(''foo'', JString ''bar'')])"
    and "map_of [(''foo'', JString ''bar'')] ''optional'' = None"
    by simp_all
  then have "\<not> Json_peerDependenciesMeta (JObject ?bad)"
    using peerDependenciesMeta_entries [of ?bad] by fastforce
  with good show ?thesis by blast
qed

text \<open>
  Claim C5 as the specification states it leaves the other entries of the record
  unconstrained, an extra key of any value being accepted. With the extra key
  \<^verbatim>\<open>foo: 1\<close> the record \<^verbatim>\<open>{optional: true, foo: 1}\<close> is refused.
\<close>

theorem peerDependenciesMeta_extra_number_counterexample:
  "\<not> Json_peerDependenciesMeta
     (JObject [(''react'', JObject [(''optional'', JBool True), (''foo'', JNumber 1)])])"
  by (simp add: Json_peerDependenciesMeta_def object_type_JObject weak_type_def
      index_signature_def member_ok_def ts_undefined_def)

text \<open>
  Claim C6. An \<^verbatim>\<open>engines\<close> record is accepted exactly when \<^verbatim>\<open>node\<close> is present and a
  string and every entry it holds is a string: further string entries are free. Without
  \<^verbatim>\<open>node\<close> it is refused, and \<^verbatim>\<open>{node: ">=18"}\<close> alone is accepted.
\<close>

theorem engines_requires_node:
  "(Json_engines (JObject kvs) \<longleftrightarrow>
      string_at kvs ''node'' \<and> (\<forall>k v. map_of kvs k = Some v \<longrightarrow> ts_string v)) \<and>
   (map_of kvs ''node'' = None \<longrightarrow> \<not> Json_engines (JObject kvs)) \<and>
   Json_engines (JObject [(''node'', JString ''>=18'')])"
proof (intro conjI)
  show "Json_engines (JObject kvs) \<longleftrightarrow>
      string_at kvs ''node'' \<and> (\<forall>k v. map_of kvs k = Some v \<longrightarrow> ts_string v)"
    by (rule engines_iff)
  show "map_of kvs ''node'' = None \<longrightarrow> \<not> Json_engines (JObject kvs)"
    by (simp add: engines_iff string_at_def)
  show "Json_engines (JObject [(''node'', JString ''>=18'')])"
    by (simp add: engines_iff string_at_def)
qed

text \<open>
  At \<^verbatim>\<open>{node: ">=18", npm: ">=9"}\<close>, which is accepted, and at \<^verbatim>\<open>{npm: ">=9"}\<close>, which
  has no \<^verbatim>\<open>node\<close> and is refused.
\<close>

theorem engines_requires_node_witness:
  "Json_engines (JObject [(''node'', JString ''>=18''), (''npm'', JString ''>=9'')]) \<and>
   \<not> Json_engines (JObject [(''npm'', JString ''>=9'')])"
proof -
  let ?good = "[(''node'', JString ''>=18''), (''npm'', JString ''>=9'')]"
  have "string_at ?good ''node''"
    by (simp add: string_at_def)
  moreover have "\<forall>k v. map_of ?good k = Some v \<longrightarrow> ts_string v"
    by auto
  ultimately have good: "Json_engines (JObject ?good)"
    using engines_requires_node [of ?good] by blast
  have "map_of [(''npm'', JString ''>=9'')] ''node'' = None"
    by simp
  then have "\<not> Json_engines (JObject [(''npm'', JString ''>=9'')])"
    using engines_requires_node [of "[(''npm'', JString ''>=9'')]"] by blast
  with good show ?thesis by blast
qed

text \<open>
  Claim C7. A record all of whose values are strings is of type \<^verbatim>\<open>Dependency\<close>,
  whatever its keys. So in a document whose \<^verbatim>\<open>dependencies\<close>, \<^verbatim>\<open>devDependencies\<close>,
  \<^verbatim>\<open>optionalDependencies\<close> or \<^verbatim>\<open>peerDependencies\<close> is such a record the field counts
  for nothing: the document conforms exactly when it conforms without the field.
\<close>

theorem dependency_records_are_open:
  assumes "\<forall>k v. map_of deps k = Some v \<longrightarrow> ts_string v"
  shows "Dependency (JObject deps) \<and>
         (f \<in> set dependency_fields \<and> map_of kvs f = Some (JObject deps) \<longrightarrow>
            Json (JObject kvs) = Json (JObject (without f kvs)))"
proof -
  have d: "Dependency (JObject deps)"
    using assms by (simp add: Dependency_iff)
  have "Json (JObject kvs) = Json (JObject (without f kvs))"
    if "f \<in> set dependency_fields" and "map_of kvs f = Some (JObject deps)"
    using Json_field_split [OF that(2), of Dependency] Json_dependency_members [OF that(1)] d
    by simp
  with d show ?thesis by simp
qed

text \<open>
  At a document whose \<^verbatim>\<open>devDependencies\<close> names two packages that nothing declares.
\<close>

theorem dependency_records_are_open_witness:
  "Dependency
     (JObject [(''left-pad'', JString ''^1.3.0''),
        (''@acme/unheard-of'', JString ''git+https://example.org/u.git'')]) \<and>
   Json (JObject [(''name'', JString ''x''), (''version'', JString ''1.0.0''),
     (''devDependencies'',
        JObject [(''left-pad'', JString ''^1.3.0''),
          (''@acme/unheard-of'', JString ''git+https://example.org/u.git'')])])"
proof -
  let ?deps = "[(''left-pad'', JString ''^1.3.0''),
      (''@acme/unheard-of'', JString ''git+https://example.org/u.git'')]"
  let ?doc = "[(''name'', JString ''x''), (''version'', JString ''1.0.0''),
      (''devDependencies'', JObject ?deps)]"
  have strings: "\<forall>k v. map_of ?deps k = Some v \<longrightarrow> ts_string v"
    by auto
  have "''devDependencies'' \<in> set dependency_fields"
    and "map_of ?doc ''devDependencies'' = Some (JObject ?deps)"
    by (simp_all add: dependency_fields_def)
  with dependency_records_are_open [OF strings, of "''devDependencies''" ?doc]
  have "Dependency (JObject ?deps)"
    and "Json (JObject ?doc) = Json (JObject (without ''devDependencies'' ?doc))"
    by blast+
  moreover have "Json (JObject (without ''devDependencies'' ?doc))"
    using Json_minimal by (simp add: without_def minimal_document_def)
  ultimately show ?thesis by blast
qed

text \<open>
  Claim C8. \<^verbatim>\<open>interface Json\<close> declares \<^verbatim>\<open>type\<close>, an optional string, and \<^verbatim>\<open>man\<close>,
  optionally a string or an array of strings: a document that holds one of them conforms
  exactly when the value has that type and the document conforms without the field.
\<close>

theorem type_and_man_recognized:
  "(map_of kvs ''type'' = Some v \<longrightarrow>
      Json (JObject kvs) = (ts_string v \<and> Json (JObject (without ''type'' kvs)))) \<and>
   (map_of kvs ''man'' = Some v \<longrightarrow>
      Json (JObject kvs) =
        ((ts_string v \<or> ts_array ts_string v) \<and> Json (JObject (without ''man'' kvs))))"
proof -
  have "Json (JObject kvs) = (ts_string v \<and> Json (JObject (without ''type'' kvs)))"
    if "map_of kvs ''type'' = Some v"
    using Json_field_split [OF that, of ts_string] Json_type_member by simp
  moreover have "Json (JObject kvs) =
      ((ts_string v \<or> ts_array ts_string v) \<and> Json (JObject (without ''man'' kvs)))"
    if "map_of kvs ''man'' = Some v"
    using Json_field_split [OF that, of Json_man] Json_man_member by (simp add: Json_man_def)
  ultimately show ?thesis by simp
qed

text \<open>
  At the minimal document with \<^verbatim>\<open>type: "module"\<close>, with \<^verbatim>\<open>man: ["./man/x.1"]\<close> and
  with \<^verbatim>\<open>man: "./man/x.1"\<close>, which conform, and with \<^verbatim>\<open>type: true\<close>, which does not.
\<close>

theorem type_and_man_recognized_witness:
  "Json (JObject [(''type'', JString ''module''), (''name'', JString ''x''),
     (''version'', JString ''1.0.0'')]) \<and>
   Json (JObject [(''man'', JArray [JString ''./man/x.1'']), (''name'', JString ''x''),
     (''version'', JString ''1.0.0'')]) \<and>
   Json (JObject [(''man'', JString ''./man/x.1''), (''name'', JString ''x''),
     (''version'', JString ''1.0.0'')]) \<and>
   \<not> Json (JObject [(''type'', JBool True), (''name'', JString ''x''),
     (''version'', JString ''1.0.0'')])"
proof -
  let ?min = "[(''name'', JString ''x''), (''version'', JString ''1.0.0'')]"
  have m: "Json (JObject ?min)"
    using Json_minimal by (simp add: minimal_document_def)
  have "Json (JObject ((''type'', JString ''module'') # ?min))"
    using type_and_man_recognized [of "(''type'', JString ''module'') # ?min" "JString ''module''"] m
    by (simp add: without_def)
  moreover have "Json (JObject ((''man'', JArray [JString ''./man/x.1'']) # ?min))"
    using type_and_man_recognized
      [of "(''man'', JArray [JString ''./man/x.1'']) # ?min" "JArray [JString ''./man/x.1'']"] m
    by (simp add: without_def)
  moreover have "Json (JObject ((''man'', JString ''./man/x.1'') # ?min))"
    using type_and_man_recognized
      [of "(''man'', JString ''./man/x.1'') # ?min" "JString ''./man/x.1''"] m
    by (simp add: without_def)
  moreover have "\<not> Json (JObject ((''type'', JBool True) # ?min))"
    using type_and_man_recognized [of "(''type'', JBool True) # ?min" "JBool True"]
    by simp
  ultimately show ?thesis by blast
qed

text \<open>
  Claim C9. In \<^verbatim>\<open>scripts\<close>, \<^verbatim>\<open>engines\<close>, \<^verbatim>\<open>publishConfig\<close> and the record form of
  \<^verbatim>\<open>esnext\<close> the index signature holds every value to be a string, declared key or not:
  a record with a value that is no string under any key is of none of the four types, and
  a document that holds such a record in one of the four fields does not conform.
\<close>

theorem open_records_hold_strings_only:
  assumes "map_of kvs k = Some v" and "\<not> ts_string v"
  shows "\<not> Json_scripts (JObject kvs) \<and> \<not> Json_engines (JObject kvs) \<and>
         \<not> Json_publishConfig (JObject kvs) \<and> \<not> Json_esnext (JObject kvs) \<and>
         ((f, T) \<in> set string_record_fields \<and> map_of doc f = Some (JObject kvs) \<longrightarrow>
            \<not> Json (JObject doc))"
proof -
  have shapes: "\<not> Json_scripts (JObject kvs)" "\<not> Json_engines (JObject kvs)"
    "\<not> Json_publishConfig (JObject kvs)" "\<not> Json_esnext (JObject kvs)"
    using assms by (auto simp: scripts_iff engines_iff publishConfig_iff esnext_iff)
  have "\<not> Json (JObject doc)"
    if mem: "(f, T) \<in> set string_record_fields" and at: "map_of doc f = Some (JObject kvs)"
  proof -
    from mem shapes have "\<not> T (JObject kvs)"
      by (auto simp: string_record_fields_def)
    then show ?thesis
      using Json_field_split [OF at, of T] Json_string_record_members [OF mem] by simp
  qed
  with shapes show ?thesis by simp
qed

text \<open>
  At the record \<^verbatim>\<open>{deploy: 1}\<close>, whose key no type declares, held as the \<^verbatim>\<open>scripts\<close>
  of an otherwise minimal document.
\<close>

theorem open_records_hold_strings_only_witness:
  "\<not> Json_scripts (JObject [(''deploy'', JNumber 1)]) \<and>
   \<not> Json_engines (JObject [(''deploy'', JNumber 1)]) \<and>
   \<not> Json_publishConfig (JObject [(''deploy'', JNumber 1)]) \<and>
   \<not> Json_esnext (JObject [(''deploy'', JNumber 1)]) \<and>
   \<not> Json (JObject [(''name'', JString ''x''), (''version'', JString ''1.0.0''),
       (''scripts'', JObject [(''deploy'', JNumber 1)])])"
proof -
  have at: "map_of [(''deploy'', JNumber 1)] ''deploy'' = Some (JNumber 1)"
    and no: "\<not> ts_string (JNumber 1)"
    by simp_all
  have "(''scripts'', Json_scripts) \<in> set string_record_fields"
    and "map_of [(''name'', JString ''x''), (''version'', JString ''1.0.0''),
        (''scripts'', JObject [(''deploy'', JNumber 1)])] ''scripts'' =
      Some (JObject [(''deploy'', JNumber 1)])"
    by (simp_all add: string_record_fields_def)
  with open_records_hold_strings_only [OF at no, of "''scripts''" Json_scripts
      "[(''name'', JString ''x''), (''version'', JString ''1.0.0''),
        (''scripts'', JObject [(''deploy'', JNumber 1)])]"]
  show ?thesis by blast
qed

text \<open>
  Claim C10. A \<^verbatim>\<open>bugs\<close> value is a string, or a record in which both \<^verbatim>\<open>url\<close> and
  \<^verbatim>\<open>email\<close> are present and strings: a record that lacks either is refused.
\<close>

theorem bugs_record_requires_url_and_email:
  "(Json_bugs (JObject kvs) \<longleftrightarrow> string_at kvs ''url'' \<and> string_at kvs ''email'') \<and>
   (map_of kvs ''url'' = None \<or> map_of kvs ''email'' = None \<longrightarrow> \<not> Json_bugs (JObject kvs)) \<and>
   Json_bugs (JString s)"
proof -
  have rec: "Json_bugs (JObject kvs) \<longleftrightarrow> string_at kvs ''url'' \<and> string_at kvs ''email''"
    by (simp add: Json_bugs_def object_type_JObject weak_type_def required_string)
  moreover have "\<not> Json_bugs (JObject kvs)"
    if "map_of kvs ''url'' = None \<or> map_of kvs ''email'' = None"
    using that unfolding rec by (auto simp: string_at_def)
  moreover have "Json_bugs (JString s)"
    by (simp add: Json_bugs_def)
  ultimately show ?thesis by blast
qed

text \<open>
  At a record with both fields, which is accepted, and at records with one of them,
  which are refused.
\<close>

theorem bugs_record_requires_url_and_email_witness:
  "Json_bugs (JObject [(''url'', JString ''https://example.org/issues''),
     (''email'', JString ''bugs@example.org'')]) \<and>
   \<not> Json_bugs (JObject [(''url'', JString ''https://example.org/issues'')]) \<and>
   \<not> Json_bugs (JObject [(''email'', JString ''bugs@example.org'')])"
proof -
  let ?both = "[(''url'', JString ''https://example.org/issues''),
      (''email'', JString ''bugs@example.org'')]"
  have "string_at ?both ''url''" and "string_at ?both ''email''"
    by (simp_all add: string_at_def)
  then have both: "Json_bugs (JObject ?both)"
    using bugs_record_requires_url_and_email [of ?both "''x''"] by blast
  have "map_of [(''url'', JString ''https://example.org/issues'')] ''email'' = None"
    by simp
  then have no_email: "\<not> Json_bugs (JObject [(''url'', JString ''https://example.org/issues'')])"
    using bugs_record_requires_url_and_email
      [of "[(''url'', JString ''https://example.org/issues'')]" "''x''"] by blast
  have "map_of [(''email'', JString ''bugs@example.org'')] ''url'' = None"
    by simp
  then have "\<not> Json_bugs (JObject [(''email'', JString ''bugs@example.org'')])"
    using bugs_record_requires_url_and_email
      [of "[(''email'', JString ''bugs@example.org'')]" "''x''"] by blast
  with both no_email show ?thesis by blast
qed

end
